theory Spec2Isabelle
  imports Complex_Main
begin

section \<open>Numbers and strings of the host language\<close>

text \<open>
  A value of TypeScript type \<open>number\<close> is NaN, one of the two infinities, or a finite
  double. Every finite double is a real number, so the finite values are modelled as
  reals and a statement about all reals covers all doubles; the two zeros are identified
  (the code never tells them apart: it only compares, clamps and prints them).
\<close>

datatype jsnum = NaN | NegInf | PosInf | Fin real

text \<open>The relational operators \<open><=\<close> and \<open><\<close>: false as soon as an operand is NaN.\<close>

fun js_le :: "jsnum \<Rightarrow> jsnum \<Rightarrow> bool" where
  "js_le NaN _ = False"
| "js_le _ NaN = False"
| "js_le NegInf _ = True"
| "js_le _ PosInf = True"
| "js_le (Fin a) (Fin b) = (a \<le> b)"
| "js_le PosInf _ = False"
| "js_le _ NegInf = False"


text \<open>\<open>Math.max\<close> and \<open>Math.min\<close> of two arguments: NaN if either argument is NaN.\<close>

fun Math_max :: "jsnum \<Rightarrow> jsnum \<Rightarrow> jsnum" where
  "Math_max NaN _ = NaN"
| "Math_max _ NaN = NaN"
| "Math_max a b = (if js_le a b then b else a)"

fun Math_min :: "jsnum \<Rightarrow> jsnum \<Rightarrow> jsnum" where
  "Math_min NaN _ = NaN"
| "Math_min _ NaN = NaN"
| "Math_min a b = (if js_le a b then a else b)"

text \<open>
  \<open>Math.round\<close>: the nearest integer, a tie going up; NaN and the infinities are
  returned as they are.
\<close>

fun Math_round :: "jsnum \<Rightarrow> jsnum" where
  "Math_round (Fin r) = Fin (of_int \<lfloor>r + 1 / 2\<rfloor>)"
| "Math_round x = x"

text \<open>\<open>Number(v)\<close> for \<open>v\<close> of type \<open>number\<close> returns \<open>v\<close>; \<open>Number.isNaN\<close>.\<close>

definition Number_js :: "jsnum \<Rightarrow> jsnum" where
  "Number_js v = v"

definition Number_isNaN :: "jsnum \<Rightarrow> bool" where
  "Number_isNaN v = (v = NaN)"

text \<open>Truthiness of an optional number: \<open>undefined\<close>, zero and NaN are falsy.\<close>

fun truthy_num :: "jsnum option \<Rightarrow> bool" where
  "truthy_num None = False"
| "truthy_num (Some NaN) = False"
| "truthy_num (Some (Fin r)) = (r \<noteq> 0)"
| "truthy_num (Some _) = True"

text \<open>Truthiness of an optional string: \<open>undefined\<close> and the empty string are falsy.\<close>

fun truthy_str :: "string option \<Rightarrow> bool" where
  "truthy_str None = False"
| "truthy_str (Some s) = (s \<noteq> [])"

text \<open>
  Strings are lists of 8-bit characters, read as the strings whose code units are all
  below 256 (Latin-1). On those, \<open>trim\<close> removes the code units 9 to 13, 32 and 160 from
  both ends, and \<open>toLowerCase\<close> adds 32 to the code units 65..90 and 192..222 except 215.
\<close>

definition isWhiteSpace :: "char \<Rightarrow> bool" where
  "isWhiteSpace c = (let n = (of_char c :: nat) in (9 \<le> n \<and> n \<le> 13) \<or> n = 32 \<or> n = 160)"

definition trim :: "string \<Rightarrow> string" where
  "trim s = rev (dropWhile isWhiteSpace (rev (dropWhile isWhiteSpace s)))"

definition lowerChar :: "char \<Rightarrow> char" where
  "lowerChar c =
     (let n = (of_char c :: nat)
      in if (65 \<le> n \<and> n \<le> 90) \<or> (192 \<le> n \<and> n \<le> 222 \<and> n \<noteq> 215)
         then char_of (n + 32) else c)"

definition toLowerCase :: "string \<Rightarrow> string" where
  "toLowerCase s = map lowerChar s"

text \<open>
  \<open>Number::toString\<close>, as template literals apply it. It is written out for NaN, the
  infinities and the integers below \<open>10^21\<close> in magnitude; the digits of any other finite
  value are those of the engine's shortest round-trip algorithm, taken as the parameter
  \<open>fmt\<close>.
\<close>

fun digitsOf :: "nat \<Rightarrow> string" where
  "digitsOf n =
     (if n < 10 then [''0123456789'' ! n]
      else digitsOf (n div 10) @ [''0123456789'' ! (n mod 10)])"

declare digitsOf.simps [simp del]

definition intToString :: "int \<Rightarrow> string" where
  "intToString i = (if i < 0 then CHR ''-'' # digitsOf (nat (- i)) else digitsOf (nat i))"

fun NumberToString :: "(real \<Rightarrow> string) \<Rightarrow> jsnum \<Rightarrow> string" where
  "NumberToString fmt NaN = ''NaN''"
| "NumberToString fmt PosInf = ''Infinity''"
| "NumberToString fmt NegInf = ''-Infinity''"
| "NumberToString fmt (Fin r) =
     (if r = of_int \<lfloor>r\<rfloor> \<and> \<bar>r\<bar> < 10 ^ 21 then intToString \<lfloor>r\<rfloor> else fmt r)"

section \<open>The payload normalizer\<close>

text \<open>\<open>clamp(value, min, max)\<close> of \<open>dashboard-page.tsx\<close>.\<close>

definition clamp :: "jsnum \<Rightarrow> jsnum \<Rightarrow> jsnum \<Rightarrow> jsnum" where
  "clamp v lo hi = Math_max lo (Math_min hi v)"

type_synonym box4 = "jsnum \<times> jsnum \<times> jsnum \<times> jsnum"

text \<open>
  \<open>normalizeBox(raw)\<close>: \<open>None\<close> for the \<open>null\<close> it returns. The argument is the optional
  \<open>number[]\<close> of the payload type, \<open>None\<close> when the field is absent.
\<close>

definition normalizeBox :: "jsnum list option \<Rightarrow> box4 option" where
  "normalizeBox raw =
     (case raw of
        None \<Rightarrow> None
      | Some xs \<Rightarrow>
          if length xs \<noteq> 4 then None
          else
            (case map (\<lambda>v. clamp (Math_round (Number_js v)) (Fin 0) (Fin 1000)) xs of
               [ymin, xmin, ymax, xmax] \<Rightarrow>
                 if Number_isNaN ymin \<or> Number_isNaN xmin \<or> Number_isNaN ymax \<or> Number_isNaN xmax
                 then None
                 else if js_le ymax ymin \<or> js_le xmax xmin then None
                 else Some (ymin, xmin, ymax, xmax)
             | _ \<Rightarrow> None))"


subsection \<open>The data model\<close>

text \<open>
  The types of \<open>dashboard-page.tsx\<close>. An optional field is an \<open>option\<close>, \<open>None\<close> when
  it is absent. The fields of the wire types carry a prefix where the name is also a field
  of the snapshot.
\<close>

record RawDetection =
  d_label :: "string option"
  d_box :: "jsnum list option"

record VisionPayload =
  voice_prompt :: "string option"
  p_detections :: "RawDetection list option"
  haptic_intensity :: "jsnum option"
  ts :: "jsnum option"

record Detection =
  label :: string
  box :: box4

record LogEntry =
  entry_id :: int
  entry_time :: string
  entry_text :: string

definition MAX_LOG_ENTRIES :: nat where
  "MAX_LOG_ENTRIES = 80"

text \<open>The earlier revision of the page (\<open>part_000\<close>) keeps 60 entries.\<close>

definition MAX_LOG_ENTRIES_part_000 :: nat where
  "MAX_LOG_ENTRIES_part_000 = 60"

subsection \<open>The environment\<close>

text \<open>
  What a handler reads from the browser while it runs: the clock, the random generator,
  the locale's time format, the handle a timer call returns, and the built-ins that are
  not written out here. \<open>jsonParse\<close> is \<open>JSON.parse\<close> followed by the cast to
  \<open>VisionPayload\<close>, \<open>None\<close> when \<open>JSON.parse\<close> throws; the payload type is taken at
  its word, so the decoded value has the declared shape.
\<close>

record env =
  dateNow :: int
  mathRandom :: real
  localeTimeNow :: string
  localeTimeAt :: "jsnum \<Rightarrow> string"
  fracDigits :: "real \<Rightarrow> string"
  timerHandle :: nat
  jsonParse :: "string \<Rightarrow> VisionPayload option"

text \<open>
  \<open>formatTime(tsSeconds)\<close>: \<open>localeTimeAt t\<close> stands for
  \<open>new Date(t * 1000).toLocaleTimeString()\<close> and \<open>localeTimeNow\<close> for
  \<open>new Date().toLocaleTimeString()\<close>.
\<close>

definition formatTime :: "env \<Rightarrow> jsnum option \<Rightarrow> string" where
  "formatTime e tsSeconds =
     (case tsSeconds of
        None \<Rightarrow> localeTimeNow e
      | Some t \<Rightarrow> if truthy_num (Some t) then localeTimeAt e t else localeTimeNow e)"

subsection \<open>The state\<close>

text \<open>
  What the page sends out is recorded as a trace of effects. A request is named by its
  endpoint: \<open>/vision/analyze-current\<close>, \<open>/haptic/send?intensity=\<close> and \<open>/tts?text=\<close>.
\<close>

datatype request = AnalyzeCurrent | HapticSend jsnum | Tts string

datatype effect =
    NewWebSocket
  | WsSend string
  | WsClose
  | SetInterval nat nat
  | ClearInterval nat
  | SetTimeout nat nat
  | ClearTimeout nat
  | Fetch request

text \<open>
  The component's \<open>useState\<close> cells, followed by the variables of the stream effect's
  closure (\<open>teardown\<close>, \<open>socket\<close>, the two timer handles) and the trace. \<open>socket\<close> is
  true once a socket has been created (the variable is never reset to \<open>null\<close>).
\<close>

record dashboard =
  connected :: bool
  voicePrompt :: string
  hapticIntensity :: jsnum
  detections :: "Detection list"
  eventLog :: "LogEntry list"
  videoReady :: bool
  actionBusy :: "string option"
  teardown :: bool
  socket :: bool
  reconnectTimer :: "nat option"
  keepaliveTimer :: "nat option"
  effects :: "effect list"

definition initialState :: dashboard where
  "initialState =
     \<lparr> connected = False, voicePrompt = ''Waiting for analysis'', hapticIntensity = Fin 0,
       detections = [], eventLog = [], videoReady = False, actionBusy = None,
       teardown = False, socket = False, reconnectTimer = None, keepaliveTimer = None,
       effects = [] \<rparr>"

definition emit :: "effect list \<Rightarrow> dashboard \<Rightarrow> dashboard" where
  "emit es s = s\<lparr>effects := effects s @ es\<rparr>"

subsection \<open>The event history buffer\<close>

text \<open>\<open>[entry, ...current].slice(0, cap)\<close>, the updater \<open>addLog\<close> hands to \<open>setEventLog\<close>.\<close>

definition pushEntry :: "nat \<Rightarrow> LogEntry \<Rightarrow> LogEntry list \<Rightarrow> LogEntry list" where
  "pushEntry cap entry current = take cap (entry # current)"

definition newEntry :: "env \<Rightarrow> string \<Rightarrow> jsnum option \<Rightarrow> LogEntry" where
  "newEntry e txt tsSeconds =
     \<lparr> entry_id = dateNow e + \<lfloor>mathRandom e * 10000\<rfloor>,
       entry_time = formatTime e tsSeconds,
       entry_text = txt \<rparr>"

definition addLog :: "env \<Rightarrow> string \<Rightarrow> jsnum option \<Rightarrow> dashboard \<Rightarrow> dashboard" where
  "addLog e txt tsSeconds s =
     s\<lparr>eventLog := pushEntry MAX_LOG_ENTRIES (newEntry e txt tsSeconds) (eventLog s)\<rparr>"

subsection \<open>Applying a payload\<close>

text \<open>The callback \<open>applyPayload\<close> maps over the raw detections, and the filter after it.\<close>

definition normalizeDetection :: "RawDetection \<Rightarrow> Detection option" where
  "normalizeDetection det =
     (case normalizeBox (d_box det) of
        None \<Rightarrow> None
      | Some b \<Rightarrow>
          Some \<lparr> label =
                   toLowerCase
                     (case d_label det of
                        None \<Rightarrow> ''obstacle''
                      | Some l \<Rightarrow> if truthy_str (Some l) then l else ''obstacle''),
                 box = b \<rparr>)"

definition normalizeDetections :: "RawDetection list \<Rightarrow> Detection list" where
  "normalizeDetections rawDetections =
     [d. Some d \<leftarrow> map normalizeDetection rawDetections]"

definition nextVoice :: "VisionPayload \<Rightarrow> string" where
  "nextVoice payload =
     (case voice_prompt payload of
        None \<Rightarrow> ''Path is clear''
      | Some v \<Rightarrow> if truthy_str (Some (trim v)) then trim v else ''Path is clear'')"

definition nextHaptic :: "VisionPayload \<Rightarrow> jsnum" where
  "nextHaptic payload =
     clamp (Math_round (Number_js (case haptic_intensity payload of None \<Rightarrow> Fin 0 | Some h \<Rightarrow> h)))
       (Fin 0) (Fin 255)"

definition nextDetections :: "VisionPayload \<Rightarrow> Detection list" where
  "nextDetections payload =
     normalizeDetections (case p_detections payload of None \<Rightarrow> [] | Some ds \<Rightarrow> ds)"

definition applyPayload :: "env \<Rightarrow> VisionPayload \<Rightarrow> string \<Rightarrow> dashboard \<Rightarrow> dashboard" where
  "applyPayload e payload source s =
     addLog e
       (source @ '': '' @ nextVoice payload @ '' | haptic='' @
          NumberToString (fracDigits e) (nextHaptic payload))
       (ts payload)
       (s\<lparr> voicePrompt := nextVoice payload,
           hapticIntensity := nextHaptic payload,
           detections := nextDetections payload \<rparr>)"


section \<open>The telemetry session\<close>

text \<open>
  The stream effect of \<open>DashboardPage\<close>. Each handler is a function on the state; the
  events it is called for are those of the socket created last (an earlier socket has
  closed by then, and a closed socket delivers nothing more).
\<close>

text \<open>A timer handle is truthy when it is set and not zero.\<close>

fun truthy_handle :: "nat option \<Rightarrow> bool" where
  "truthy_handle None = False"
| "truthy_handle (Some h) = (h \<noteq> 0)"

definition clearTimers :: "dashboard \<Rightarrow> dashboard" where
  "clearTimers s =
     emit ((case reconnectTimer s of
              Some h \<Rightarrow> if truthy_handle (Some h) then [ClearTimeout h] else []
            | None \<Rightarrow> []) @
           (case keepaliveTimer s of
              Some h \<Rightarrow> if truthy_handle (Some h) then [ClearInterval h] else []
            | None \<Rightarrow> [])) s"

definition connect :: "dashboard \<Rightarrow> dashboard" where
  "connect s = (if teardown s then s else emit [NewWebSocket] (s\<lparr>socket := True\<rparr>))"

definition onopen :: "env \<Rightarrow> dashboard \<Rightarrow> dashboard" where
  "onopen e s =
     emit [SetInterval (timerHandle e) 15000]
       ((addLog e ''WebSocket connected'' None (s\<lparr>connected := True\<rparr>))
          \<lparr>keepaliveTimer := Some (timerHandle e)\<rparr>)"

text \<open>
  The keepalive callback; \<open>isOpen\<close> tells whether the socket's \<open>readyState\<close> is
  \<open>OPEN\<close> when the interval fires.
\<close>

definition keepalive :: "bool \<Rightarrow> dashboard \<Rightarrow> dashboard" where
  "keepalive isOpen s = (if socket s \<and> isOpen then emit [WsSend ''ping''] s else s)"

definition onmessage :: "env \<Rightarrow> string \<Rightarrow> dashboard \<Rightarrow> dashboard" where
  "onmessage e data s =
     (case jsonParse e data of
        Some payload \<Rightarrow> applyPayload e payload ''vision stream'' s
      | None \<Rightarrow> addLog e ''Invalid websocket payload'' None s)"

definition onclose :: "env \<Rightarrow> dashboard \<Rightarrow> dashboard" where
  "onclose e s =
     (let s1 = s\<lparr>connected := False\<rparr>;
          s2 = (case keepaliveTimer s1 of
                  Some h \<Rightarrow> if truthy_handle (Some h) then emit [ClearInterval h] s1 else s1
                | None \<Rightarrow> s1)
      in if \<not> teardown s2
         then emit [SetTimeout (timerHandle e) 1200]
                ((addLog e ''WebSocket disconnected. Reconnecting...'' None s2)
                   \<lparr>reconnectTimer := Some (timerHandle e)\<rparr>)
         else s2)"

definition onerror :: "dashboard \<Rightarrow> dashboard" where
  "onerror s = (if socket s then emit [WsClose] s else s)"

text \<open>The effect's body, run when the page mounts, and its cleanup.\<close>

definition mount :: "dashboard \<Rightarrow> dashboard" where
  "mount s = connect s"

definition cleanup :: "dashboard \<Rightarrow> dashboard" where
  "cleanup s =
     (let s1 = clearTimers (s\<lparr>teardown := True\<rparr>)
      in if socket s1 then emit [WsClose] s1 else s1)"

section \<open>The operator actions\<close>

text \<open>
  An \<open>async\<close> handler runs in two steps: the synchronous part up to its \<open>fetch\<close>, and
  the rest once the request has settled. Between the two the handler touches no state, so
  the awaits after the first are folded into the second step, whose argument says how the
  request ended. A caught value is an \<open>Error\<close> with its message, or something else.
\<close>

datatype thrown = ErrorObj string | NonError

definition errorText :: "thrown \<Rightarrow> string \<Rightarrow> string" where
  "errorText err fallback = (case err of ErrorObj m \<Rightarrow> m | NonError \<Rightarrow> fallback)"

text \<open>\<open>response.ok\<close>: the status is in the range 200 to 299.\<close>

definition response_ok :: "nat \<Rightarrow> bool" where
  "response_ok status = (200 \<le> status \<and> status \<le> 299)"

text \<open>
  How a request ends: \<open>fetch\<close> rejects, or a response arrives with a status and the
  result of reading its body (a value, or what the reader threw). The body is read only
  on the paths that reach it.
\<close>

datatype 'a outcome = Rejected thrown | Responded nat "thrown + 'a"

record HapticReply =
  reply_success :: "bool option"
  reply_message :: "string option"

definition handleAnalyzeNow_start :: "dashboard \<Rightarrow> dashboard" where
  "handleAnalyzeNow_start s = emit [Fetch AnalyzeCurrent] (s\<lparr>actionBusy := Some ''analyze''\<rparr>)"

definition handleAnalyzeNow_settle :: "env \<Rightarrow> VisionPayload outcome \<Rightarrow> dashboard \<Rightarrow> dashboard" where
  "handleAnalyzeNow_settle e out s =
     (let s1 =
        (case out of
           Rejected err \<Rightarrow> addLog e (errorText err ''Analyze request failed'') None s
         | Responded status body \<Rightarrow>
             if \<not> response_ok status
             then addLog e
                    (errorText
                       (ErrorObj (''Analyze failed ('' @ NumberToString (fracDigits e) (Fin (of_nat status)) @ '')''))
                       ''Analyze request failed'')
                    None s
             else (case body of
                     Inl err \<Rightarrow> addLog e (errorText err ''Analyze request failed'') None s
                   | Inr payload \<Rightarrow> applyPayload e payload ''manual analyze'' s))
      in s1\<lparr>actionBusy := None\<rparr>)"

definition handleHapticPulse_start :: "env \<Rightarrow> jsnum \<Rightarrow> dashboard \<Rightarrow> dashboard" where
  "handleHapticPulse_start e intensity s =
     (let clamped = clamp intensity (Fin 0) (Fin 255)
      in emit [Fetch (HapticSend clamped)]
           (s\<lparr>actionBusy := Some (''haptic-'' @ NumberToString (fracDigits e) clamped)\<rparr>))"

definition handleHapticPulse_settle ::
  "env \<Rightarrow> jsnum \<Rightarrow> HapticReply outcome \<Rightarrow> dashboard \<Rightarrow> dashboard" where
  "handleHapticPulse_settle e intensity out s =
     (let clamped = clamp intensity (Fin 0) (Fin 255);
          s1 =
        (case out of
           Rejected err \<Rightarrow> addLog e (errorText err ''Haptic request failed'') None s
         | Responded status body \<Rightarrow>
             if \<not> response_ok status
             then addLog e
                    (errorText
                       (ErrorObj (''Haptic send failed ('' @ NumberToString (fracDigits e) (Fin (of_nat status)) @ '')''))
                       ''Haptic request failed'')
                    None s
             else (case body of
                     Inl err \<Rightarrow> addLog e (errorText err ''Haptic request failed'') None s
                   | Inr payload \<Rightarrow>
                       addLog e
                         (case reply_message payload of
                            None \<Rightarrow> ''Haptic pulse '' @ NumberToString (fracDigits e) clamped
                          | Some m \<Rightarrow>
                              if truthy_str (Some m) then m
                              else ''Haptic pulse '' @ NumberToString (fracDigits e) clamped)
                         None
                         (s\<lparr>hapticIntensity := clamped\<rparr>)))
      in s1\<lparr>actionBusy := None\<rparr>)"

text \<open>
  \<open>handleSpeakPrompt\<close> returns before taking the lock when the prompt trims to the
  empty string. Its body result is \<open>()\<close> once \<open>audio.play()\<close> has resolved, or what
  \<open>blob\<close>, \<open>createObjectURL\<close>, \<open>new Audio\<close> or \<open>play\<close> threw; \<open>encodeURIComponent\<close> is part
  of the endpoint's name.
\<close>

definition handleSpeakPrompt_start :: "dashboard \<Rightarrow> dashboard" where
  "handleSpeakPrompt_start s =
     (let txt = trim (voicePrompt s)
      in if \<not> truthy_str (Some txt) then s
         else emit [Fetch (Tts txt)] (s\<lparr>actionBusy := Some ''speak''\<rparr>))"

definition handleSpeakPrompt_settle :: "env \<Rightarrow> unit outcome \<Rightarrow> dashboard \<Rightarrow> dashboard" where
  "handleSpeakPrompt_settle e out s =
     (let s1 =
        (case out of
           Rejected err \<Rightarrow> addLog e (errorText err ''TTS request failed'') None s
         | Responded status body \<Rightarrow>
             if status = 204
             then addLog e ''TTS returned no audio (check ElevenLabs key)'' None s
             else if \<not> response_ok status
             then addLog e
                    (errorText
                       (ErrorObj (''TTS failed ('' @ NumberToString (fracDigits e) (Fin (of_nat status)) @ '')''))
                       ''TTS request failed'')
                    None s
             else (case body of
                     Inl err \<Rightarrow> addLog e (errorText err ''TTS request failed'') None s
                   | Inr _ \<Rightarrow> addLog e ''TTS playback started'' None s))
      in s1\<lparr>actionBusy := None\<rparr>)"

text \<open>
  The four buttons of the page carry \<open>disabled={actionBusy !== null}\<close>.
\<close>

definition buttonDisabled :: "dashboard \<Rightarrow> bool" where
  "buttonDisabled s = (actionBusy s \<noteq> None)"

text \<open>
  Modelled from the spec: the \<open>Button\<close> component (\<open>@/components/ui/button\<close>) is not
  among the sources. A click on a button whose \<open>disabled\<close> property holds is rejected and
  nothing is sent (section 4.4, point 1, realised at the control, as an HTML button does);
  otherwise its \<open>onClick\<close> handler runs.
\<close>

definition click :: "(dashboard \<Rightarrow> dashboard) \<Rightarrow> dashboard \<Rightarrow> dashboard" where
  "click handler s = (if buttonDisabled s then s else handler s)"

section \<open>The page as a transition system\<close>

datatype event =
    OnOpen
  | OnMessage string
  | OnClose
  | OnError
  | ReconnectFired
  | KeepaliveFired bool
  | Unmount
  | VideoLoad
  | VideoError
  | ClickAnalyze
  | ClickSpeak
  | ClickPulse120
  | ClickMaxAlert
  | AnalyzeSettled "VisionPayload outcome"
  | HapticSettled jsnum "HapticReply outcome"
  | SpeakSettled "unit outcome"

fun step :: "env \<Rightarrow> event \<Rightarrow> dashboard \<Rightarrow> dashboard" where
  "step e OnOpen s = onopen e s"
| "step e (OnMessage data) s = onmessage e data s"
| "step e OnClose s = onclose e s"
| "step e OnError s = onerror s"
| "step e ReconnectFired s = connect s"
| "step e (KeepaliveFired isOpen) s = keepalive isOpen s"
| "step e Unmount s = cleanup s"
| "step e VideoLoad s = s\<lparr>videoReady := True\<rparr>"
| "step e VideoError s = s\<lparr>videoReady := False\<rparr>"
| "step e ClickAnalyze s = click handleAnalyzeNow_start s"
| "step e ClickSpeak s = click handleSpeakPrompt_start s"
| "step e ClickPulse120 s = click (handleHapticPulse_start e (Fin 120)) s"
| "step e ClickMaxAlert s = click (handleHapticPulse_start e (Fin 220)) s"
| "step e (AnalyzeSettled out) s = handleAnalyzeNow_settle e out s"
| "step e (HapticSettled intensity out) s = handleHapticPulse_settle e intensity out s"
| "step e (SpeakSettled out) s = handleSpeakPrompt_settle e out s"

text \<open>A run: each event comes with the environment its handler reads.\<close>

fun run :: "(env \<times> event) list \<Rightarrow> dashboard \<Rightarrow> dashboard" where
  "run [] s = s"
| "run ((e, ev) # rest) s = run rest (step e ev s)"


section \<open>The specification's notions\<close>

text \<open>
  The definitions of this section follow the words of the specification; the theorems
  below compare them with the functions above.
\<close>








text \<open>An integer between 0 and 255.\<close>

definition inByteRange :: "jsnum \<Rightarrow> bool" where
  "inByteRange v = (case v of Fin r \<Rightarrow> r = of_int \<lfloor>r\<rfloor> \<and> 0 \<le> r \<and> r \<le> 255 | _ \<Rightarrow> False)"

subsection \<open>Sample inputs\<close>



text \<open>An environment, for the closed instances below.\<close>

definition emptyPayload :: VisionPayload where
  "emptyPayload =
     \<lparr> voice_prompt = None, p_detections = None, haptic_intensity = None, ts = None \<rparr>"

definition sampleEnv :: env where
  "sampleEnv =
     \<lparr> dateNow = 1700000000000,
       mathRandom = 1 / 4,
       localeTimeNow = ''12:00:00'',
       localeTimeAt = (\<lambda>t. ''11:59:59''),
       fracDigits = (\<lambda>r. ''0.5''),
       timerHandle = 7,
       jsonParse = (\<lambda>d. if d = ''{}'' then Some emptyPayload else None) \<rparr>"

text \<open>The page while a speak action is in flight.\<close>

definition busyState :: dashboard where
  "busyState = initialState\<lparr>actionBusy := Some ''speak''\<rparr>"

text \<open>Eighty-one log entries, numbered in the order they are appended.\<close>

definition sampleEntries :: "LogEntry list" where
  "sampleEntries =
     map (\<lambda>i. \<lparr> entry_id = int i, entry_time = ''12:00:00'', entry_text = ''tick'' \<rparr>) [0..<81]"

text \<open>
  A run of the page with one action started, a click while it is in flight, its failure,
  and a second action.
\<close>

definition sampleRun :: "(env \<times> event) list" where
  "sampleRun =
     [(sampleEnv, ClickAnalyze), (sampleEnv, ClickMaxAlert),
      (sampleEnv, AnalyzeSettled (Rejected NonError)), (sampleEnv, ClickSpeak)]"

subsection \<open>Reading the trace\<close>

text \<open>
  The reconnects a trace holds: the timeouts scheduled, and the connection attempts
  (sockets created).
\<close>

fun isSetTimeout :: "effect \<Rightarrow> bool" where
  "isSetTimeout (SetTimeout h ms) = True"
| "isSetTimeout _ = False"

definition scheduled :: "effect list \<Rightarrow> effect list" where
  "scheduled es = filter isSetTimeout es"

definition attempts :: "effect list \<Rightarrow> nat" where
  "attempts es = length (filter (\<lambda>x. x = NewWebSocket) es)"

text \<open>
  \<open>quiet s s'\<close>: the session is torn down in \<open>s'\<close>, and from \<open>s\<close> to \<open>s'\<close> no reconnect
  was scheduled and no connection attempted.
\<close>

definition quiet :: "dashboard \<Rightarrow> dashboard \<Rightarrow> bool" where
  "quiet s s' =
     (teardown s' \<and> scheduled (effects s') = scheduled (effects s) \<and>
      attempts (effects s') = attempts (effects s))"

text \<open>The requests a state's trace holds.\<close>

fun isFetch :: "effect \<Rightarrow> bool" where
  "isFetch (Fetch r) = True"
| "isFetch _ = False"

definition requests :: "dashboard \<Rightarrow> nat" where
  "requests s = length (filter isFetch (effects s))"

text \<open>
  The number of actions in flight along a run: a step adds the requests it issues, and
  the settling of a request takes one away. A run is orderly when a request settles only
  while one is in flight.
\<close>

fun isSettled :: "event \<Rightarrow> bool" where
  "isSettled (AnalyzeSettled out) = True"
| "isSettled (HapticSettled intensity out) = True"
| "isSettled (SpeakSettled out) = True"
| "isSettled _ = False"

definition flightAfter :: "nat \<Rightarrow> env \<Rightarrow> event \<Rightarrow> dashboard \<Rightarrow> nat" where
  "flightAfter n e ev s =
     n + (requests (step e ev s) - requests s) - (if isSettled ev then 1 else 0)"

fun inFlight :: "nat \<Rightarrow> (env \<times> event) list \<Rightarrow> dashboard \<Rightarrow> nat" where
  "inFlight n [] s = n"
| "inFlight n ((e, ev) # rest) s = inFlight (flightAfter n e ev s) rest (step e ev s)"

fun orderly :: "nat \<Rightarrow> (env \<times> event) list \<Rightarrow> dashboard \<Rightarrow> bool" where
  "orderly n [] s = True"
| "orderly n ((e, ev) # rest) s =
     ((isSettled ev \<longrightarrow> 0 < n) \<and> orderly (flightAfter n e ev s) rest (step e ev s))"

definition lockCount :: "dashboard \<Rightarrow> nat" where
  "lockCount s = (if actionBusy s = None then 0 else 1)"

subsection \<open>Appending to the event log\<close>

text \<open>The entries of a list appended one after the other, the first of the list first.\<close>

fun pushAll :: "nat \<Rightarrow> LogEntry list \<Rightarrow> LogEntry list \<Rightarrow> LogEntry list" where
  "pushAll cap [] current = current"
| "pushAll cap (entry # entries) current = pushAll cap entries (pushEntry cap entry current)"

definition logBounded :: "dashboard \<Rightarrow> bool" where
  "logBounded s = (length (eventLog s) \<le> MAX_LOG_ENTRIES)"

section \<open>Properties of the payload normalizer\<close>












text \<open>
  Where the intensity is absent or a number other than NaN, the normalized intensity is
  an integer between 0 and 255; 300 gives 255, -10 gives 0 and an absent field gives 0.
\<close>

lemma nextHaptic_range: "haptic_intensity p \<noteq> Some NaN \<Longrightarrow> inByteRange (nextHaptic p)"
proof (cases "haptic_intensity p")
  case None
  then show ?thesis by (simp add: nextHaptic_def clamp_def Number_js_def inByteRange_def)
next
  case (Some h)
  assume "haptic_intensity p \<noteq> Some NaN"
  with Some show ?thesis
    by (cases h)
       (simp_all add: nextHaptic_def clamp_def Number_js_def inByteRange_def max_def min_def)
qed

lemma nextHaptic_examples:
  "nextHaptic (p\<lparr>haptic_intensity := Some (Fin 300)\<rparr>) = Fin 255"
  "nextHaptic (p\<lparr>haptic_intensity := Some (Fin (- 10))\<rparr>) = Fin 0"
  "nextHaptic (p\<lparr>haptic_intensity := None\<rparr>) = Fin 0"
  by (simp_all add: nextHaptic_def clamp_def Number_js_def)

text \<open>
  C2. The claim: the normalized haptic intensity is always an integer between 0 and 255,
  and a field that does not coerce to a number gives 0. The code at such a field: NaN
  passes \<open>??\<close>, \<open>Number\<close>, \<open>Math.round\<close> and both bounds of \<open>clamp\<close> unchanged, and the
  snapshot's intensity becomes NaN.
\<close>

theorem haptic_nan_not_normalized:
  "hapticIntensity (applyPayload e (p\<lparr>haptic_intensity := Some NaN\<rparr>) src s) = NaN \<and>
   \<not> inByteRange (hapticIntensity (applyPayload e (p\<lparr>haptic_intensity := Some NaN\<rparr>) src s))"
  by (simp add: applyPayload_def addLog_def nextHaptic_def clamp_def Number_js_def
        inByteRange_def)










section \<open>Properties of the event log\<close>

lemma take_push: "take cap (en # take cap xs) = take cap (en # xs)"
  by (cases cap) simp_all

lemma pushAll_take:
  "pushAll cap ens current = (if ens = [] then current else take cap (rev ens @ current))"
proof (induction ens arbitrary: current)
  case Nil
  then show ?case by simp
next
  case (Cons en ens)
  show ?case
  proof (cases "ens = []")
    case True
    then show ?thesis by (simp add: pushEntry_def)
  next
    case False
    have "pushAll cap (en # ens) current = pushAll cap ens (pushEntry cap en current)" by simp
    also have "\<dots> = take cap (rev ens @ take cap (en # current))"
      using False by (simp add: Cons.IH pushEntry_def)
    also have "\<dots> = take cap (rev ens @ en # current)"
      by (simp add: take_push min_def)
    finally show ?thesis by simp
  qed
qed

lemma pushEntry_length: "length (pushEntry cap en current) \<le> cap"
  by (simp add: pushEntry_def)

lemma addLog_bounded [simp]: "logBounded (addLog e txt t s)"
  by (simp add: logBounded_def addLog_def pushEntry_def)

lemma applyPayload_bounded [simp]: "logBounded (applyPayload e p src s)"
  by (simp add: applyPayload_def)

lemma logBounded_update [simp]:
  "logBounded (emit es s) = logBounded s"
  "logBounded (s\<lparr>connected := c\<rparr>) = logBounded s"
  "logBounded (s\<lparr>videoReady := v\<rparr>) = logBounded s"
  "logBounded (s\<lparr>actionBusy := a\<rparr>) = logBounded s"
  "logBounded (s\<lparr>teardown := b\<rparr>) = logBounded s"
  "logBounded (s\<lparr>socket := b\<rparr>) = logBounded s"
  "logBounded (s\<lparr>reconnectTimer := r\<rparr>) = logBounded s"
  "logBounded (s\<lparr>keepaliveTimer := k\<rparr>) = logBounded s"
  "logBounded (s\<lparr>hapticIntensity := h\<rparr>) = logBounded s"
  by (simp_all add: logBounded_def emit_def)

lemma step_bounded: "logBounded s \<Longrightarrow> logBounded (step e ev s)"
proof (cases ev)
  case (OnMessage data)
  assume "logBounded s"
  then show ?thesis using OnMessage
    by (simp add: onmessage_def split: option.splits)
next
  case (AnalyzeSettled out)
  assume "logBounded s"
  then show ?thesis using AnalyzeSettled
    by (simp add: handleAnalyzeNow_settle_def Let_def split: outcome.splits sum.splits)
next
  case (HapticSettled i out)
  assume "logBounded s"
  then show ?thesis using HapticSettled
    by (simp add: handleHapticPulse_settle_def Let_def split: outcome.splits sum.splits)
next
  case (SpeakSettled out)
  assume "logBounded s"
  then show ?thesis using SpeakSettled
    by (simp add: handleSpeakPrompt_settle_def Let_def split: outcome.splits sum.splits)
qed (simp_all add: onopen_def onclose_def onerror_def connect_def keepalive_def
       cleanup_def clearTimers_def click_def handleAnalyzeNow_start_def
       handleSpeakPrompt_start_def handleHapticPulse_start_def Let_def split: option.splits)

lemma run_bounded: "logBounded s \<Longrightarrow> logBounded (run evs s)"
proof (induction evs arbitrary: s)
  case Nil
  then show ?case by simp
next
  case (Cons x evs)
  obtain e ev where x: "x = (e, ev)" by (cases x)
  from Cons.prems have "logBounded (step e ev s)" by (rule step_bounded)
  then have "logBounded (run evs (step e ev s))" by (rule Cons.IH)
  then show ?case using x by simp
qed

text \<open>
  C7. Whatever is appended, the event log never holds more than its capacity: an append
  leaves at most \<open>cap\<close> entries, and no run of the page takes the log beyond
  \<open>MAX_LOG_ENTRIES\<close>. Appending to the empty log gives the newest \<open>cap\<close> entries, newest
  first; after \<open>cap + 1\<close> appends to any log, the log holds all but the first one
  appended, newest first. The capacity is any number, 80 and 60 among them.
\<close>

theorem event_log_bounded:
  "length (pushEntry cap en current) \<le> cap \<and>
   pushAll cap ens [] = take cap (rev ens) \<and>
   (length ens = Suc cap \<longrightarrow> pushAll cap ens current = rev (tl ens)) \<and>
   eventLog (addLog e txt t s) = pushEntry MAX_LOG_ENTRIES (newEntry e txt t) (eventLog s) \<and>
   length (eventLog (run evs (mount initialState))) \<le> MAX_LOG_ENTRIES"
proof (intro conjI impI)
  show "length (pushEntry cap en current) \<le> cap" by (rule pushEntry_length)
  show "pushAll cap ens [] = take cap (rev ens)" by (simp add: pushAll_take)
  show "eventLog (addLog e txt t s) = pushEntry MAX_LOG_ENTRIES (newEntry e txt t) (eventLog s)"
    by (simp add: addLog_def)
  have "logBounded (mount initialState)"
    by (simp add: logBounded_def mount_def connect_def initialState_def emit_def)
  then have "logBounded (run evs (mount initialState))" by (rule run_bounded)
  then show "length (eventLog (run evs (mount initialState))) \<le> MAX_LOG_ENTRIES"
    by (simp add: logBounded_def)
next
  assume len: "length ens = Suc cap"
  then obtain old recent where ens: "ens = old # recent" by (cases ens) auto
  with len have "length recent = cap" by simp
  then have "take cap (rev recent @ old # current) = rev recent" by simp
  then show "pushAll cap ens current = rev (tl ens)" using ens by (simp add: pushAll_take)
qed

theorem event_log_bounded_witness:
  "length sampleEntries = Suc MAX_LOG_ENTRIES \<and>
   pushAll MAX_LOG_ENTRIES sampleEntries [] = rev (tl sampleEntries) \<and>
   length (pushAll MAX_LOG_ENTRIES sampleEntries []) = 80 \<and>
   entry_id (hd (pushAll MAX_LOG_ENTRIES sampleEntries [])) = 80 \<and>
   entry_id (last (pushAll MAX_LOG_ENTRIES sampleEntries [])) = 1 \<and>
   length (take 61 sampleEntries) = Suc MAX_LOG_ENTRIES_part_000 \<and>
   pushAll MAX_LOG_ENTRIES_part_000 (take 61 sampleEntries) [] = rev (tl (take 61 sampleEntries))"
proof -
  have len: "length sampleEntries = Suc MAX_LOG_ENTRIES"
    by (simp add: sampleEntries_def MAX_LOG_ENTRIES_def)
  have tl: "tl sampleEntries =
      map (\<lambda>i. \<lparr> entry_id = int i, entry_time = ''12:00:00'', entry_text = ''tick'' \<rparr>) [1..<81]"
    by (simp add: sampleEntries_def upt_conv_Cons map_tl)
  have eq: "pushAll MAX_LOG_ENTRIES sampleEntries [] = rev (tl sampleEntries)"
    using event_log_bounded [where cap = MAX_LOG_ENTRIES and ens = sampleEntries and current = "[]"]
      len by blast
  have len60: "length (take 61 sampleEntries) = Suc MAX_LOG_ENTRIES_part_000"
    by (simp add: sampleEntries_def MAX_LOG_ENTRIES_part_000_def)
  have eq60: "pushAll MAX_LOG_ENTRIES_part_000 (take 61 sampleEntries) [] =
      rev (tl (take 61 sampleEntries))"
    using event_log_bounded [where cap = MAX_LOG_ENTRIES_part_000 and ens = "take 61 sampleEntries"
        and current = "[]"] len60
    by blast
  have "length (rev (tl sampleEntries)) = 80" by (simp add: tl)
  moreover have "entry_id (hd (rev (tl sampleEntries))) = 80"
    by (simp add: tl hd_rev last_map)
  moreover have "entry_id (last (rev (tl sampleEntries))) = 1"
    by (simp add: tl last_rev hd_map upt_conv_Cons)
  ultimately show ?thesis using len eq len60 eq60 by simp
qed

section \<open>Properties of the telemetry session\<close>

text \<open>
  C5. A stream message that \<open>JSON.parse\<close> rejects changes nothing but the event log,
  which gets one entry, \<open>Invalid websocket payload\<close>; the prompt, the intensity and the
  detections stay as they were. The handler is a total function of the state: the
  \<open>catch\<close> clause ends it, and nothing is thrown further.
\<close>

theorem undecodable_message:
  "jsonParse e data = None \<Longrightarrow>
   onmessage e data s =
     s\<lparr>eventLog :=
         pushEntry MAX_LOG_ENTRIES
           \<lparr> entry_id = dateNow e + \<lfloor>mathRandom e * 10000\<rfloor>,
             entry_time = localeTimeNow e,
             entry_text = ''Invalid websocket payload'' \<rparr>
           (eventLog s)\<rparr> \<and>
   voicePrompt (onmessage e data s) = voicePrompt s \<and>
   hapticIntensity (onmessage e data s) = hapticIntensity s \<and>
   detections (onmessage e data s) = detections s"
  by (simp add: onmessage_def addLog_def newEntry_def formatTime_def)

theorem undecodable_message_witness:
  "jsonParse sampleEnv ''not json'' = None \<and>
   eventLog (onmessage sampleEnv ''not json'' initialState) =
     [\<lparr> entry_id = 1700000002500, entry_time = ''12:00:00'',
        entry_text = ''Invalid websocket payload'' \<rparr>] \<and>
   voicePrompt (onmessage sampleEnv ''not json'' initialState) = ''Waiting for analysis'' \<and>
   hapticIntensity (onmessage sampleEnv ''not json'' initialState) = Fin 0 \<and>
   detections (onmessage sampleEnv ''not json'' initialState) = []"
proof -
  have h: "jsonParse sampleEnv ''not json'' = None" by (simp add: sampleEnv_def)
  show ?thesis
    using undecodable_message [OF h, of initialState] h
    by (simp add: sampleEnv_def initialState_def pushEntry_def MAX_LOG_ENTRIES_def)
qed

lemma scheduled_append [simp]: "scheduled (xs @ ys) = scheduled xs @ scheduled ys"
  by (simp add: scheduled_def)

lemma attempts_append [simp]: "attempts (xs @ ys) = attempts xs + attempts ys"
  by (simp add: attempts_def)

lemma effects_addLog [simp]: "effects (addLog e txt t s) = effects s"
  by (simp add: addLog_def)

lemma teardown_addLog [simp]: "teardown (addLog e txt t s) = teardown s"
  by (simp add: addLog_def)

lemma effects_applyPayload [simp]: "effects (applyPayload e p src s) = effects s"
  by (simp add: applyPayload_def)

lemma teardown_applyPayload [simp]: "teardown (applyPayload e p src s) = teardown s"
  by (simp add: applyPayload_def)

lemma effects_emit [simp]: "effects (emit es s) = effects s @ es"
  by (simp add: emit_def)

lemma teardown_emit [simp]: "teardown (emit es s) = teardown s"
  by (simp add: emit_def)

lemma trace_simps [simp]:
  "scheduled [] = []" "attempts [] = 0"
  "scheduled [SetTimeout h ms] = [SetTimeout h ms]" "attempts [SetTimeout h ms] = 0"
  "scheduled [NewWebSocket] = []" "attempts [NewWebSocket] = 1"
  "scheduled [WsClose] = []" "attempts [WsClose] = 0"
  "scheduled [WsSend m] = []" "attempts [WsSend m] = 0"
  "scheduled [SetInterval h ms] = []" "attempts [SetInterval h ms] = 0"
  "scheduled [ClearInterval h] = []" "attempts [ClearInterval h] = 0"
  "scheduled [ClearTimeout h] = []" "attempts [ClearTimeout h] = 0"
  "scheduled [Fetch r] = []" "attempts [Fetch r] = 0"
  by (simp_all add: scheduled_def attempts_def)

lemma onclose_live:
  "\<not> teardown s \<Longrightarrow>
   scheduled (effects (onclose e s)) = scheduled (effects s) @ [SetTimeout (timerHandle e) 1200] \<and>
   attempts (effects (onclose e s)) = attempts (effects s) \<and>
   \<not> teardown (onclose e s)"
  by (simp add: onclose_def Let_def split: option.splits)

lemma connect_live:
  "\<not> teardown s \<Longrightarrow>
   attempts (effects (connect s)) = attempts (effects s) + 1 \<and>
   scheduled (effects (connect s)) = scheduled (effects s)"
  by (simp add: connect_def)

lemma step_quiet: "teardown s \<Longrightarrow> quiet s (step e ev s)"
proof (cases ev)
  case (OnMessage data)
  assume "teardown s"
  then show ?thesis using OnMessage
    by (simp add: quiet_def onmessage_def split: option.splits)
next
  case (AnalyzeSettled out)
  assume "teardown s"
  then show ?thesis using AnalyzeSettled
    by (simp add: quiet_def handleAnalyzeNow_settle_def Let_def split: outcome.splits sum.splits)
next
  case (HapticSettled i out)
  assume "teardown s"
  then show ?thesis using HapticSettled
    by (simp add: quiet_def handleHapticPulse_settle_def Let_def split: outcome.splits sum.splits)
next
  case (SpeakSettled out)
  assume "teardown s"
  then show ?thesis using SpeakSettled
    by (simp add: quiet_def handleSpeakPrompt_settle_def Let_def split: outcome.splits sum.splits)
qed (simp_all add: quiet_def onopen_def onclose_def onerror_def connect_def keepalive_def
       cleanup_def clearTimers_def click_def handleAnalyzeNow_start_def
       handleSpeakPrompt_start_def handleHapticPulse_start_def Let_def split: option.splits)

lemma run_quiet: "teardown s \<Longrightarrow> quiet s (run evs s)"
proof (induction evs arbitrary: s)
  case Nil
  then show ?case by (simp add: quiet_def)
next
  case (Cons x evs)
  obtain e ev where x: "x = (e, ev)" by (cases x)
  from Cons.prems have q: "quiet s (step e ev s)" by (rule step_quiet)
  then have "teardown (step e ev s)" by (simp add: quiet_def)
  then have "quiet (step e ev s) (run evs (step e ev s))" by (rule Cons.IH)
  with q show ?case using x by (simp add: quiet_def)
qed

lemma cleanup_quiet: "quiet s (cleanup s)"
  by (simp add: quiet_def cleanup_def clearTimers_def Let_def split: option.splits)

text \<open>
  C6. A close that finds the session not torn down schedules exactly one timeout, of
  1200 ms, and attempts no connection itself; when that timeout fires, one connection is
  attempted. Once the cleanup has run, whatever events follow (a late close, a timeout
  that was pending, anything else), the session stays torn down, no timeout is scheduled
  and no connection is attempted.
\<close>

theorem reconnect_policy:
  "(\<not> teardown s \<longrightarrow>
      scheduled (effects (onclose e s)) =
        scheduled (effects s) @ [SetTimeout (timerHandle e) 1200] \<and>
      attempts (effects (onclose e s)) = attempts (effects s) \<and>
      attempts (effects (step e' ReconnectFired (onclose e s))) = attempts (effects s) + 1) \<and>
   teardown (run evs (cleanup s)) \<and>
   scheduled (effects (run evs (cleanup s))) = scheduled (effects s) \<and>
   attempts (effects (run evs (cleanup s))) = attempts (effects s)"
proof -
  have live: "\<not> teardown s \<longrightarrow>
      scheduled (effects (onclose e s)) =
        scheduled (effects s) @ [SetTimeout (timerHandle e) 1200] \<and>
      attempts (effects (onclose e s)) = attempts (effects s) \<and>
      attempts (effects (step e' ReconnectFired (onclose e s))) = attempts (effects s) + 1"
    using onclose_live [of s e] connect_live [of "onclose e s"] by simp
  have c: "quiet s (cleanup s)" by (rule cleanup_quiet)
  then have "teardown (cleanup s)" by (simp add: quiet_def)
  then have "quiet (cleanup s) (run evs (cleanup s))" by (rule run_quiet)
  with c have "quiet s (run evs (cleanup s))" by (simp add: quiet_def)
  with live show ?thesis by (simp add: quiet_def)
qed

theorem reconnect_policy_witness:
  "\<not> teardown (mount initialState) \<and>
   scheduled (effects (onclose sampleEnv (mount initialState))) = [SetTimeout 7 1200] \<and>
   attempts (effects (onclose sampleEnv (mount initialState))) = 1 \<and>
   attempts (effects (step sampleEnv ReconnectFired (onclose sampleEnv (mount initialState)))) = 2 \<and>
   attempts (effects (run [(sampleEnv, OnClose), (sampleEnv, ReconnectFired)]
                        (cleanup (mount initialState)))) = 1"
proof -
  have t: "\<not> teardown (mount initialState)"
    by (simp add: mount_def connect_def initialState_def)
  have a: "attempts (effects (mount initialState)) = 1"
    "scheduled (effects (mount initialState)) = []"
    by (simp_all add: mount_def connect_def initialState_def)
  have h: "timerHandle sampleEnv = 7" by (simp add: sampleEnv_def)
  show ?thesis
    using reconnect_policy [of "mount initialState" sampleEnv sampleEnv
        "[(sampleEnv, OnClose), (sampleEnv, ReconnectFired)]"] t a h
    by simp
qed


section \<open>Properties of the prompt\<close>

lemma dropWhile_last: "dropWhile P xs \<noteq> [] \<Longrightarrow> last (dropWhile P xs) = last xs"
  by (induction xs) (auto split: if_splits)

lemma dropWhile_rev_fixed:
  assumes "a = [] \<or> \<not> P (hd a)"
  shows "dropWhile P (rev (dropWhile P (rev a))) = rev (dropWhile P (rev a))"
proof (cases "dropWhile P (rev a) = []")
  case True
  show ?thesis unfolding True by simp
next
  case False
  then have ne: "a \<noteq> []" by auto
  have "last (dropWhile P (rev a)) = last (rev a)" using False by (rule dropWhile_last)
  also have "\<dots> = hd a" using ne by (simp add: last_rev)
  finally have "\<not> P (hd (rev (dropWhile P (rev a))))" using assms ne False by (simp add: hd_rev)
  then show ?thesis by (simp add: dropWhile_eq_self_iff)
qed

lemma trim_idem: "trim (trim s) = trim s"
proof -
  let ?a = "dropWhile isWhiteSpace s"
  have a: "?a = [] \<or> \<not> isWhiteSpace (hd ?a)" using hd_dropWhile by blast
  have "dropWhile isWhiteSpace (rev (dropWhile isWhiteSpace (rev ?a))) =
          rev (dropWhile isWhiteSpace (rev ?a))"
    using a by (rule dropWhile_rev_fixed)
  then show ?thesis by (simp add: trim_def)
qed

lemma nextVoice_nonblank: "trim (nextVoice p) \<noteq> []"
proof (cases "voice_prompt p")
  case None
  then show ?thesis by (simp add: nextVoice_def trim_def isWhiteSpace_def)
next
  case (Some v)
  show ?thesis
  proof (cases "trim v = []")
    case True
    then show ?thesis using Some
      by (simp add: nextVoice_def) (simp add: trim_def isWhiteSpace_def)
  next
    case False
    then show ?thesis using Some by (simp add: nextVoice_def trim_idem)
  qed
qed

lemma voicePrompt_addLog [simp]: "voicePrompt (addLog e txt t s) = voicePrompt s"
  by (simp add: addLog_def)

lemma voicePrompt_emit [simp]: "voicePrompt (emit es s) = voicePrompt s"
  by (simp add: emit_def)

lemma voicePrompt_applyPayload [simp]: "voicePrompt (applyPayload e p src s) = nextVoice p"
  by (simp add: applyPayload_def)

lemma step_prompt:
  "trim (voicePrompt s) \<noteq> [] \<Longrightarrow> trim (voicePrompt (step e ev s)) \<noteq> []"
proof (cases ev)
  case (OnMessage data)
  assume "trim (voicePrompt s) \<noteq> []"
  then show ?thesis using OnMessage
    by (simp add: onmessage_def nextVoice_nonblank split: option.splits)
next
  case (AnalyzeSettled out)
  assume "trim (voicePrompt s) \<noteq> []"
  then show ?thesis using AnalyzeSettled
    by (simp add: handleAnalyzeNow_settle_def nextVoice_nonblank Let_def
          split: outcome.splits sum.splits)
next
  case (HapticSettled i out)
  assume "trim (voicePrompt s) \<noteq> []"
  then show ?thesis using HapticSettled
    by (simp add: handleHapticPulse_settle_def Let_def split: outcome.splits sum.splits)
next
  case (SpeakSettled out)
  assume "trim (voicePrompt s) \<noteq> []"
  then show ?thesis using SpeakSettled
    by (simp add: handleSpeakPrompt_settle_def Let_def split: outcome.splits sum.splits)
qed (simp_all add: onopen_def onclose_def onerror_def connect_def keepalive_def cleanup_def
       clearTimers_def click_def handleAnalyzeNow_start_def handleSpeakPrompt_start_def
       handleHapticPulse_start_def Let_def split: option.splits)

lemma run_prompt:
  "trim (voicePrompt s) \<noteq> [] \<Longrightarrow> trim (voicePrompt (run evs s)) \<noteq> []"
proof (induction evs arbitrary: s)
  case Nil
  then show ?case by simp
next
  case (Cons x evs)
  obtain e ev where x: "x = (e, ev)" by (cases x)
  from Cons.prems have "trim (voicePrompt (step e ev s)) \<noteq> []" by (rule step_prompt)
  then have "trim (voicePrompt (run evs (step e ev s))) \<noteq> []" by (rule Cons.IH)
  then show ?case using x by simp
qed

lemma initial_prompt: "trim (voicePrompt (mount initialState)) \<noteq> []"
  by (simp add: mount_def connect_def initialState_def trim_def isWhiteSpace_def)

text \<open>
  C9. In every state the page reaches from its mount, the prompt is not empty after
  trimming, so \<open>handleSpeakPrompt\<close> never takes its early return: it sets the token and
  issues its request.
\<close>

theorem prompt_never_blank:
  "trim (voicePrompt (run evs (mount initialState))) \<noteq> [] \<and>
   handleSpeakPrompt_start (run evs (mount initialState)) =
     emit [Fetch (Tts (trim (voicePrompt (run evs (mount initialState)))))]
       ((run evs (mount initialState))\<lparr>actionBusy := Some ''speak''\<rparr>)"
proof -
  have "trim (voicePrompt (run evs (mount initialState))) \<noteq> []"
    using initial_prompt by (rule run_prompt)
  then show ?thesis by (simp add: handleSpeakPrompt_start_def Let_def)
qed

section \<open>Properties of the operator actions\<close>

text \<open>
  C8. However its request ends (\<open>fetch\<close> rejects, the response is not a success, the
  body cannot be read, or all goes well), each of the three actions leaves the busy
  token cleared.
\<close>

theorem lock_released:
  "actionBusy (handleAnalyzeNow_settle e out1 s) = None \<and>
   actionBusy (handleHapticPulse_settle e intensity out2 s) = None \<and>
   actionBusy (handleSpeakPrompt_settle e out3 s) = None"
  by (simp add: handleAnalyzeNow_settle_def handleHapticPulse_settle_def
        handleSpeakPrompt_settle_def Let_def)

text \<open>
  C10. When a haptic pulse succeeds, the snapshot's intensity becomes the requested
  intensity clamped to 0..255, whatever the reply holds, and the prompt and the
  detections are as before.
\<close>

theorem haptic_success_frame:
  "response_ok status \<Longrightarrow>
   hapticIntensity (handleHapticPulse_settle e intensity (Responded status (Inr reply)) s) =
     clamp intensity (Fin 0) (Fin 255) \<and>
   voicePrompt (handleHapticPulse_settle e intensity (Responded status (Inr reply)) s) =
     voicePrompt s \<and>
   detections (handleHapticPulse_settle e intensity (Responded status (Inr reply)) s) =
     detections s"
  by (simp add: handleHapticPulse_settle_def addLog_def Let_def)

theorem haptic_success_frame_witness:
  "response_ok 200 \<and>
   hapticIntensity
     (handleHapticPulse_settle sampleEnv (Fin 300)
        (Responded 200 (Inr \<lparr> reply_success = Some True, reply_message = Some ''sent'' \<rparr>))
        initialState) = Fin 255 \<and>
   voicePrompt
     (handleHapticPulse_settle sampleEnv (Fin 300)
        (Responded 200 (Inr \<lparr> reply_success = Some True, reply_message = Some ''sent'' \<rparr>))
        initialState) = ''Waiting for analysis'' \<and>
   detections
     (handleHapticPulse_settle sampleEnv (Fin 300)
        (Responded 200 (Inr \<lparr> reply_success = Some True, reply_message = Some ''sent'' \<rparr>))
        initialState) = []"
proof -
  have h: "response_ok 200" by (simp add: response_ok_def)
  show ?thesis
    using haptic_success_frame [OF h, of sampleEnv "Fin 300"
        "\<lparr> reply_success = Some True, reply_message = Some ''sent'' \<rparr>" initialState] h
    by (simp add: clamp_def initialState_def)
qed

lemma requests_simps [simp]:
  "requests (addLog e txt t s) = requests s"
  "requests (applyPayload e p src s) = requests s"
  "requests (s\<lparr>connected := c\<rparr>) = requests s"
  "requests (s\<lparr>videoReady := v\<rparr>) = requests s"
  "requests (s\<lparr>actionBusy := a\<rparr>) = requests s"
  "requests (s\<lparr>teardown := b\<rparr>) = requests s"
  "requests (s\<lparr>socket := b\<rparr>) = requests s"
  "requests (s\<lparr>reconnectTimer := r\<rparr>) = requests s"
  "requests (s\<lparr>keepaliveTimer := k\<rparr>) = requests s"
  "requests (s\<lparr>hapticIntensity := h\<rparr>) = requests s"
  "requests (emit es s) = requests s + length (filter isFetch es)"
  by (simp_all add: requests_def addLog_def applyPayload_def emit_def)

lemma lockCount_simps [simp]:
  "lockCount (addLog e txt t s) = lockCount s"
  "lockCount (applyPayload e p src s) = lockCount s"
  "lockCount (emit es s) = lockCount s"
  "lockCount (s\<lparr>connected := c\<rparr>) = lockCount s"
  "lockCount (s\<lparr>videoReady := v\<rparr>) = lockCount s"
  "lockCount (s\<lparr>teardown := b\<rparr>) = lockCount s"
  "lockCount (s\<lparr>socket := b\<rparr>) = lockCount s"
  "lockCount (s\<lparr>reconnectTimer := r\<rparr>) = lockCount s"
  "lockCount (s\<lparr>keepaliveTimer := k\<rparr>) = lockCount s"
  "lockCount (s\<lparr>hapticIntensity := h\<rparr>) = lockCount s"
  "lockCount (s\<lparr>actionBusy := None\<rparr>) = 0"
  "lockCount (s\<lparr>actionBusy := Some a\<rparr>) = 1"
  by (simp_all add: lockCount_def addLog_def applyPayload_def emit_def)

lemma step_flight:
  assumes "n = lockCount s" and "isSettled ev \<longrightarrow> 0 < n"
  shows "flightAfter n e ev s = lockCount (step e ev s)"
proof (cases ev)
  case (AnalyzeSettled out)
  then show ?thesis using assms
    by (simp add: flightAfter_def handleAnalyzeNow_settle_def Let_def
          split: outcome.splits sum.splits) (simp add: lockCount_def split: if_splits)
next
  case (HapticSettled i out)
  then show ?thesis using assms
    by (simp add: flightAfter_def handleHapticPulse_settle_def Let_def
          split: outcome.splits sum.splits) (simp add: lockCount_def split: if_splits)
next
  case (SpeakSettled out)
  then show ?thesis using assms
    by (simp add: flightAfter_def handleSpeakPrompt_settle_def Let_def
          split: outcome.splits sum.splits) (simp add: lockCount_def split: if_splits)
next
  case ClickAnalyze
  then show ?thesis using assms
    by (simp add: flightAfter_def click_def buttonDisabled_def handleAnalyzeNow_start_def)
       (simp add: lockCount_def)
next
  case ClickSpeak
  then show ?thesis using assms
    by (simp add: flightAfter_def click_def buttonDisabled_def handleSpeakPrompt_start_def Let_def)
       (simp add: lockCount_def)
next
  case ClickPulse120
  then show ?thesis using assms
    by (simp add: flightAfter_def click_def buttonDisabled_def handleHapticPulse_start_def Let_def)
       (simp add: lockCount_def)
next
  case ClickMaxAlert
  then show ?thesis using assms
    by (simp add: flightAfter_def click_def buttonDisabled_def handleHapticPulse_start_def Let_def)
       (simp add: lockCount_def)
next
  case (OnMessage data)
  then show ?thesis using assms
    by (simp add: flightAfter_def onmessage_def split: option.splits)
qed (simp_all add: assms flightAfter_def onopen_def onclose_def onerror_def connect_def
       keepalive_def cleanup_def clearTimers_def Let_def split: option.splits)

lemma run_flight:
  "orderly n evs s \<Longrightarrow> n = lockCount s \<Longrightarrow> inFlight n evs s = lockCount (run evs s)"
proof (induction evs arbitrary: n s)
  case Nil
  then show ?case by simp
next
  case (Cons x evs)
  obtain e ev where x: "x = (e, ev)" by (cases x)
  from Cons.prems x have ok: "isSettled ev \<longrightarrow> 0 < n"
    and rest: "orderly (flightAfter n e ev s) evs (step e ev s)" by simp_all
  have "flightAfter n e ev s = lockCount (step e ev s)"
    using Cons.prems(2) ok by (rule step_flight)
  with rest have
    "inFlight (flightAfter n e ev s) evs (step e ev s) = lockCount (run evs (step e ev s))"
    by (rule Cons.IH)
  then show ?case using x by simp
qed

lemma mount_idle: "lockCount (mount initialState) = 0"
  by (simp add: mount_def connect_def initialState_def lockCount_def emit_def)

text \<open>
  C1, as the claim states it, fails on the handlers: with a speak action in flight,
  \<open>handleAnalyzeNow\<close> replaces the token and issues its request.
\<close>

theorem handler_overwrites_lock:
  "actionBusy busyState = Some ''speak'' \<and>
   actionBusy (handleAnalyzeNow_start busyState) = Some ''analyze'' \<and>
   effects (handleAnalyzeNow_start busyState) = [Fetch AnalyzeCurrent]"
  by (simp add: busyState_def initialState_def handleAnalyzeNow_start_def emit_def)

text \<open>
  C1, amended. The gate is at the controls. While the busy token is set, a click on any
  of the four action buttons changes nothing: no request is issued and the token stays.
  While it is clear, the click runs the handler, which sets its token and issues one
  request (the speak handler when the prompt does not trim to nothing). The handlers do
  not look at the token. Along every orderly run of the page from its mount, the number
  of actions in flight is 1 when the token is set and 0 when it is clear, so at most one.
\<close>

theorem actions_gated_at_buttons:
  "(actionBusy s \<noteq> None \<longrightarrow>
      step e ClickAnalyze s = s \<and> step e ClickSpeak s = s \<and>
      step e ClickPulse120 s = s \<and> step e ClickMaxAlert s = s) \<and>
   (actionBusy s = None \<longrightarrow>
      step e ClickAnalyze s = handleAnalyzeNow_start s \<and>
      step e ClickSpeak s = handleSpeakPrompt_start s \<and>
      step e ClickPulse120 s = handleHapticPulse_start e (Fin 120) s \<and>
      step e ClickMaxAlert s = handleHapticPulse_start e (Fin 220) s) \<and>
   actionBusy (handleAnalyzeNow_start s) = Some ''analyze'' \<and>
   effects (handleAnalyzeNow_start s) = effects s @ [Fetch AnalyzeCurrent] \<and>
   actionBusy (handleHapticPulse_start e intensity s) =
     Some (''haptic-'' @ NumberToString (fracDigits e) (clamp intensity (Fin 0) (Fin 255))) \<and>
   effects (handleHapticPulse_start e intensity s) =
     effects s @ [Fetch (HapticSend (clamp intensity (Fin 0) (Fin 255)))] \<and>
   (trim (voicePrompt s) \<noteq> [] \<longrightarrow>
      actionBusy (handleSpeakPrompt_start s) = Some ''speak'' \<and>
      effects (handleSpeakPrompt_start s) = effects s @ [Fetch (Tts (trim (voicePrompt s)))]) \<and>
   (orderly 0 evs (mount initialState) \<longrightarrow>
      inFlight 0 evs (mount initialState) = lockCount (run evs (mount initialState)) \<and>
      inFlight 0 evs (mount initialState) \<le> 1)"
proof -
  have flight: "orderly 0 evs (mount initialState) \<longrightarrow>
      inFlight 0 evs (mount initialState) = lockCount (run evs (mount initialState)) \<and>
      inFlight 0 evs (mount initialState) \<le> 1"
  proof
    assume "orderly 0 evs (mount initialState)"
    then have "inFlight 0 evs (mount initialState) = lockCount (run evs (mount initialState))"
      using mount_idle by (simp add: run_flight)
    then show "inFlight 0 evs (mount initialState) = lockCount (run evs (mount initialState)) \<and>
      inFlight 0 evs (mount initialState) \<le> 1"
      by (simp add: lockCount_def)
  qed
  have busy: "actionBusy s \<noteq> None \<longrightarrow>
      step e ClickAnalyze s = s \<and> step e ClickSpeak s = s \<and>
      step e ClickPulse120 s = s \<and> step e ClickMaxAlert s = s"
    by (simp add: click_def buttonDisabled_def)
  have idle: "actionBusy s = None \<longrightarrow>
      step e ClickAnalyze s = handleAnalyzeNow_start s \<and>
      step e ClickSpeak s = handleSpeakPrompt_start s \<and>
      step e ClickPulse120 s = handleHapticPulse_start e (Fin 120) s \<and>
      step e ClickMaxAlert s = handleHapticPulse_start e (Fin 220) s"
    by (simp add: click_def buttonDisabled_def)
  have analyze: "actionBusy (handleAnalyzeNow_start s) = Some ''analyze'' \<and>
      effects (handleAnalyzeNow_start s) = effects s @ [Fetch AnalyzeCurrent]"
    by (simp add: handleAnalyzeNow_start_def emit_def)
  have pulse: "actionBusy (handleHapticPulse_start e intensity s) =
        Some (''haptic-'' @ NumberToString (fracDigits e) (clamp intensity (Fin 0) (Fin 255))) \<and>
      effects (handleHapticPulse_start e intensity s) =
        effects s @ [Fetch (HapticSend (clamp intensity (Fin 0) (Fin 255)))]"
    by (simp add: handleHapticPulse_start_def emit_def Let_def)
  have speak: "trim (voicePrompt s) \<noteq> [] \<longrightarrow>
      actionBusy (handleSpeakPrompt_start s) = Some ''speak'' \<and>
      effects (handleSpeakPrompt_start s) = effects s @ [Fetch (Tts (trim (voicePrompt s)))]"
    by (simp add: handleSpeakPrompt_start_def emit_def Let_def)
  from busy idle analyze pulse speak flight show ?thesis by blast
qed

lemma digits_220: "digitsOf 220 = ''220''"
  by code_simp

lemma sampleRun_orderly: "orderly 0 sampleRun (mount initialState)"
  by code_simp

lemma sampleRun_flight: "inFlight 0 sampleRun (mount initialState) = 1"
  by code_simp

theorem actions_gated_at_buttons_witness:
  "actionBusy busyState \<noteq> None \<and>
   step sampleEnv ClickAnalyze busyState = busyState \<and>
   step sampleEnv ClickSpeak busyState = busyState \<and>
   step sampleEnv ClickPulse120 busyState = busyState \<and>
   step sampleEnv ClickMaxAlert busyState = busyState \<and>
   actionBusy initialState = None \<and>
   actionBusy (step sampleEnv ClickMaxAlert initialState) = Some ''haptic-220'' \<and>
   effects (step sampleEnv ClickMaxAlert initialState) = [Fetch (HapticSend (Fin 220))] \<and>
   trim (voicePrompt initialState) \<noteq> [] \<and>
   actionBusy (step sampleEnv ClickSpeak initialState) = Some ''speak'' \<and>
   effects (step sampleEnv ClickSpeak initialState) = [Fetch (Tts ''Waiting for analysis'')] \<and>
   orderly 0 sampleRun (mount initialState) \<and>
   inFlight 0 sampleRun (mount initialState) = 1 \<and>
   lockCount (run sampleRun (mount initialState)) = 1"
proof -
  have b: "actionBusy busyState \<noteq> None" by (simp add: busyState_def)
  have i: "actionBusy initialState = None" by (simp add: initialState_def)
  have t: "trim (voicePrompt initialState) = ''Waiting for analysis''"
    by (simp add: initialState_def trim_def isWhiteSpace_def)
  have c: "clamp (Fin 220) (Fin 0) (Fin 255) = Fin 220" by (simp add: clamp_def)
  have n: "NumberToString (fracDigits sampleEnv) (Fin 220) = ''220''"
    by (simp add: intToString_def digits_220)
  show ?thesis
    using actions_gated_at_buttons [of busyState sampleEnv "Fin 220" sampleRun]
      actions_gated_at_buttons [of initialState sampleEnv "Fin 220" sampleRun] b i t c n
      sampleRun_orderly sampleRun_flight
    by (simp add: initialState_def)
qed

end
